theory Spec2Isabelle
  imports Complex_Main "HOL-Library.Word"
begin

section \<open>SceneManager: the texture and material registry\<close>

text \<open>
  A shallow embedding of \<^verbatim>\<open>Source/SceneManager.cpp\<close>. The class \<^verbatim>\<open>SceneManager\<close> owns a
  fixed array of sixteen texture entries with a counter of the entries in use, a vector of
  materials and a pointer to a shader manager. Member functions become functions on a
  record of these fields; the calls they make on the shader manager and on OpenGL/stb_image
  are appended to two call logs, so that "no call is made" and "this matrix is sent" are
  statements about the logs. Text written to \<^verbatim>\<open>std::cout\<close> is not modelled.

  The program never inspects a \<^verbatim>\<open>float\<close> or a \<^verbatim>\<open>glm::mat4\<close> itself: it copies them and
  hands them to glm and to the shader manager. Both are therefore type parameters
  (\<open>'f\<close>, \<open>'m\<close>), and the glm functions and the reading of a decimal literal as a
  \<^verbatim>\<open>float\<close> are taken as a record of operations, so every result holds for IEEE
  arithmetic as for any other interpretation.
\<close>

subsection \<open>Data\<close>

text \<open>
  Modelled from the spec: the declaration of \<^verbatim>\<open>TEXTURE_INFO\<close> is in \<^verbatim>\<open>SceneManager.h\<close>,
  which is not among the sources. The spec gives an entry of the texture table as a string
  tag with an integer handle; the field names are those the source uses. The handle
  \<^verbatim>\<open>CreateGLTexture\<close> stores is a \<^verbatim>\<open>GLuint\<close> (line 79), an unsigned 32-bit integer, so
  \<^verbatim>\<open>ID\<close> is a 32-bit word and the constructor's \<^verbatim>\<open>ID = -1\<close> is the word \<open>- 1\<close>.
  \<^verbatim>\<open>FindTextureID\<close> returns the handle as a C \<^verbatim>\<open>int\<close>, which is \<open>sint\<close> of the word.
\<close>

record TEXTURE_INFO =
  tag :: string
  ID :: "32 word"

type_synonym 'f vec2 = "'f \<times> 'f"
type_synonym 'f vec3 = "'f \<times> 'f \<times> 'f"
type_synonym 'f vec4 = "'f \<times> 'f \<times> 'f \<times> 'f"

text \<open>
  Modelled from the spec: \<^verbatim>\<open>OBJECT_MATERIAL\<close> is declared in the same absent header. The
  spec gives a material as ambient, diffuse and specular colours of three floats each, an
  ambient strength, a shininess and a string tag; the field names and the colour type
  \<^verbatim>\<open>glm::vec3\<close> are those \<^verbatim>\<open>DefineObjectMaterials\<close> and \<^verbatim>\<open>FindMaterial\<close> use.
\<close>

record 'f OBJECT_MATERIAL =
  ambientColor :: "'f vec3"
  ambientStrength :: 'f
  diffuseColor :: "'f vec3"
  specularColor :: "'f vec3"
  shininess :: 'f
  tag :: string

text \<open>What stb_image reports about a decoded file; the pixel data is not modelled.\<close>

record image =
  width :: int
  height :: int
  colorChannels :: int

datatype gl_format = GL_RGB8 | GL_RGBA8

datatype gl_call =
    stbi_set_flip_vertically_on_load bool
  | stbi_load string
  | stbi_image_free
  | glGenTextures "32 word"
  | glBindTexture "32 word"
  | glTexParameteri string string
  | glTexImage2D gl_format int int
  | glGenerateMipmap

datatype ('f, 'm) shader_call =
    setMat4Value string 'm
  | setIntValue string int
  | setVec4Value string "'f vec4"
  | setSampler2DValue string int
  | setVec2Value string "'f vec2"
  | setVec3Value string "'f vec3"
  | setFloatValue string 'f

text \<open>
  The operations of glm that \<^verbatim>\<open>SetTransformations\<close> calls, and the value of a decimal
  literal as a \<^verbatim>\<open>float\<close>: \<open>float_lit\<close> for a literal with the suffix \<^verbatim>\<open>f\<close>, \<open>double_lit\<close>
  for a \<^verbatim>\<open>double\<close> literal narrowed to \<^verbatim>\<open>float\<close> by the assignment.
\<close>

record ('f, 'm) glm =
  float_lit :: "rat \<Rightarrow> 'f"
  double_lit :: "rat \<Rightarrow> 'f"
  glm_radians :: "'f \<Rightarrow> 'f"
  glm_scale :: "'f vec3 \<Rightarrow> 'm"
  glm_rotate :: "'f \<Rightarrow> 'f vec3 \<Rightarrow> 'm"
  glm_translate :: "'f vec3 \<Rightarrow> 'm"
  mat4_mul :: "'m \<Rightarrow> 'm \<Rightarrow> 'm"

text \<open>
  Modelled from the spec: the class's fields are declared in the absent header. The spec
  gives the texture table as a fixed array of 16 entries filled in load order, which is
  the bound of the constructor's loop, and the material list as a growable sequence; the
  field names are those the source uses, the counter is compared with an \<^verbatim>\<open>int\<close> index.
  \<open>m_pShaderManager = None\<close> is the null pointer. \<^verbatim>\<open>m_basicMeshes\<close> is left out: none of
  the functions below touches it. The last two fields are not the object's: they log the
  calls made on the shader manager and on OpenGL and stb_image.
\<close>

record ('f, 'm) SceneManager =
  m_pShaderManager :: "nat option"
  m_textureIDs :: "TEXTURE_INFO list"
  m_loadedTextures :: int
  m_objectMaterials :: "'f OBJECT_MATERIAL list"
  shader_calls :: "('f, 'm) shader_call list"
  gl_calls :: "gl_call list"

text \<open>
  C++ does not check an array index. A read or write of \<^verbatim>\<open>m_textureIDs\<close> outside the
  array, and a call through a null pointer, are undefined behaviour; the model stops with
  a fault there.
\<close>

datatype fault = OutOfBounds int | NullPointer

definition g_ModelName :: string where "g_ModelName = ''model''"
definition g_ColorValueName :: string where "g_ColorValueName = ''objectColor''"
definition g_TextureValueName :: string where "g_TextureValueName = ''objectTexture''"
definition g_UseTextureName :: string where "g_UseTextureName = ''bUseTexture''"

subsection \<open>Constructor\<close>

text \<open>
  Lines 34-46. Before the loop the array holds sixteen default-constructed entries: an
  empty tag and an indeterminate \<^verbatim>\<open>ID\<close>, given here by \<open>junk\<close>. The loop overwrites
  all sixteen.
\<close>

definition SceneManager_ctor :: "nat option \<Rightarrow> (nat \<Rightarrow> 32 word) \<Rightarrow> ('f, 'm) SceneManager" where
  "SceneManager_ctor pShaderManager junk =
     \<lparr> m_pShaderManager = pShaderManager,
       m_textureIDs =
         fold (\<lambda>i arr. arr[i := (arr ! i)\<lparr>TEXTURE_INFO.tag := ''/0'', ID := - 1\<rparr>])
           [0..<16]
           (map (\<lambda>i. \<lparr>TEXTURE_INFO.tag = [], ID = junk i\<rparr>) [0..<16]),
       m_loadedTextures = 0,
       m_objectMaterials = [],
       shader_calls = [],
       gl_calls = [] \<rparr>"

subsection \<open>CreateGLTexture\<close>

text \<open>
  Lines 74-140. \<open>stbi_load_result\<close> is what \<^verbatim>\<open>stbi_load\<close> returns for each file name
  (\<open>None\<close> for a null pointer) and \<open>fresh\<close> is the name \<^verbatim>\<open>glGenTextures\<close> writes to
  \<^verbatim>\<open>textureID\<close>. The write at \<^verbatim>\<open>m_textureIDs[m_loadedTextures]\<close> is the only place the
  array is indexed for writing; the source has no check there, the model faults when the
  index is outside the array.
\<close>

definition register_texture ::
  "32 word \<Rightarrow> string \<Rightarrow> ('f, 'm) SceneManager \<Rightarrow> fault + (bool \<times> ('f, 'm) SceneManager)" where
  "register_texture textureID t s =
     (let i = m_loadedTextures s; arr = m_textureIDs s in
      if 0 \<le> i \<and> i < int (length arr) then
        let arr1 = arr[nat i := (arr ! nat i)\<lparr>ID := textureID\<rparr>];
            arr2 = arr1[nat i := (arr1 ! nat i)\<lparr>TEXTURE_INFO.tag := t\<rparr>]
        in Inr (True, s\<lparr>m_textureIDs := arr2, m_loadedTextures := i + 1\<rparr>)
      else Inl (OutOfBounds i))"

definition CreateGLTexture ::
  "(string \<Rightarrow> image option) \<Rightarrow> 32 word \<Rightarrow> string \<Rightarrow> string \<Rightarrow> ('f, 'm) SceneManager
     \<Rightarrow> fault + (bool \<times> ('f, 'm) SceneManager)" where
  "CreateGLTexture stbi_load_result fresh filename t s =
     (let s1 = s\<lparr>gl_calls := gl_calls s @
                 [stbi_set_flip_vertically_on_load True, stbi_load filename]\<rparr>
      in case stbi_load_result filename of
           None \<Rightarrow> Inr (False, s1)
         | Some img \<Rightarrow>
             let textureID = fresh;
                 s2 = s1\<lparr>gl_calls := gl_calls s1 @
                   [glGenTextures textureID, glBindTexture textureID,
                    glTexParameteri ''GL_TEXTURE_WRAP_S'' ''GL_REPEAT'',
                    glTexParameteri ''GL_TEXTURE_WRAP_T'' ''GL_REPEAT'',
                    glTexParameteri ''GL_TEXTURE_MIN_FILTER'' ''GL_LINEAR'',
                    glTexParameteri ''GL_TEXTURE_MAG_FILTER'' ''GL_LINEAR'']\<rparr>;
                 upload = (\<lambda>fmt. s2\<lparr>gl_calls := gl_calls s2 @
                   [glTexImage2D fmt (width img) (height img),
                    glGenerateMipmap, stbi_image_free, glBindTexture 0]\<rparr>)
             in if colorChannels img = 3 then register_texture textureID t (upload GL_RGB8)
                else if colorChannels img = 4 then register_texture textureID t (upload GL_RGBA8)
                else Inr (False, s2))"

text \<open>
  A run of \<^verbatim>\<open>CreateGLTexture\<close> calls, each with its file name, its tag and the name
  OpenGL generates for it, as \<^verbatim>\<open>LoadSceneTextures\<close> makes them: the result of each call is
  not used to stop the run.
\<close>

fun CreateGLTexture_run ::
  "(string \<Rightarrow> image option) \<Rightarrow> (string \<times> string \<times> 32 word) list \<Rightarrow> ('f, 'm) SceneManager
     \<Rightarrow> fault + ('f, 'm) SceneManager" where
  "CreateGLTexture_run stbi_load_result [] s = Inr s"
| "CreateGLTexture_run stbi_load_result ((filename, t, fresh) # calls) s =
     (case CreateGLTexture stbi_load_result fresh filename t s of
        Inl e \<Rightarrow> Inl e
      | Inr (b, s') \<Rightarrow> CreateGLTexture_run stbi_load_result calls s')"

text \<open>The calls of a run whose image is read and has three or four channels.\<close>

definition loads :: "(string \<Rightarrow> image option) \<Rightarrow> string \<Rightarrow> bool" where
  "loads stbi_load_result filename =
     (case stbi_load_result filename of
        None \<Rightarrow> False
      | Some img \<Rightarrow> colorChannels img = 3 \<or> colorChannels img = 4)"

subsection \<open>FindTextureID, FindTextureSlot\<close>

text \<open>
  Lines 178-196 and 204-222. The loop's variables are the function's arguments; a found
  entry sets \<^verbatim>\<open>bFound\<close> and leaves \<^verbatim>\<open>index\<close>, so the next test of the loop condition ends
  the loop.
\<close>

function FindTextureID_loop ::
  "TEXTURE_INFO list \<Rightarrow> int \<Rightarrow> string \<Rightarrow> int \<Rightarrow> int \<Rightarrow> bool \<Rightarrow> fault + int" where
  "FindTextureID_loop arr loaded t textureID index bFound =
     (if index < loaded \<and> bFound = False then
        if 0 \<le> index \<and> index < int (length arr) then
          if TEXTURE_INFO.tag (arr ! nat index) = t
          then FindTextureID_loop arr loaded t (sint (ID (arr ! nat index))) index True
          else FindTextureID_loop arr loaded t textureID (index + 1) bFound
        else Inl (OutOfBounds index)
      else Inr textureID)"
  by pat_completeness auto
termination
  by (relation "measure (\<lambda>(arr, loaded, t, textureID, index, bFound).
        2 * nat (loaded - index) + (if bFound then 0 else 1))") auto

definition FindTextureID ::
  "string \<Rightarrow> ('f, 'm) SceneManager \<Rightarrow> fault + (int \<times> ('f, 'm) SceneManager)" where
  "FindTextureID t s =
     (case FindTextureID_loop (m_textureIDs s) (m_loadedTextures s) t (- 1) 0 False of
        Inl e \<Rightarrow> Inl e
      | Inr textureID \<Rightarrow> Inr (textureID, s))"

function FindTextureSlot_loop ::
  "TEXTURE_INFO list \<Rightarrow> int \<Rightarrow> string \<Rightarrow> int \<Rightarrow> int \<Rightarrow> bool \<Rightarrow> fault + int" where
  "FindTextureSlot_loop arr loaded t textureSlot index bFound =
     (if index < loaded \<and> bFound = False then
        if 0 \<le> index \<and> index < int (length arr) then
          if TEXTURE_INFO.tag (arr ! nat index) = t
          then FindTextureSlot_loop arr loaded t index index True
          else FindTextureSlot_loop arr loaded t textureSlot (index + 1) bFound
        else Inl (OutOfBounds index)
      else Inr textureSlot)"
  by pat_completeness auto
termination
  by (relation "measure (\<lambda>(arr, loaded, t, textureSlot, index, bFound).
        2 * nat (loaded - index) + (if bFound then 0 else 1))") auto

definition FindTextureSlot ::
  "string \<Rightarrow> ('f, 'm) SceneManager \<Rightarrow> fault + (int \<times> ('f, 'm) SceneManager)" where
  "FindTextureSlot t s =
     (case FindTextureSlot_loop (m_textureIDs s) (m_loadedTextures s) t (- 1) 0 False of
        Inl e \<Rightarrow> Inl e
      | Inr textureSlot \<Rightarrow> Inr (textureSlot, s))"

subsection \<open>FindMaterial\<close>

text \<open>
  Lines 230-257. \<^verbatim>\<open>material\<close> is a reference parameter: the function takes its value and
  returns it with the result. Five fields are assigned on a match; the tag of \<^verbatim>\<open>material\<close>
  is not. \<^verbatim>\<open>std::vector::operator[]\<close> is only reached with \<^verbatim>\<open>index < size()\<close>; the
  \<^verbatim>\<open>int\<close> index starts at 0 and only grows, so it is a natural number here. The last
  statement returns the constant \<^verbatim>\<open>true\<close>, not \<^verbatim>\<open>bFound\<close>.
\<close>

function FindMaterial_loop ::
  "'f OBJECT_MATERIAL list \<Rightarrow> string \<Rightarrow> 'f OBJECT_MATERIAL \<Rightarrow> nat \<Rightarrow> bool
     \<Rightarrow> 'f OBJECT_MATERIAL \<times> nat \<times> bool" where
  "FindMaterial_loop ms t material index bFound =
     (if index < length ms \<and> bFound = False then
        if OBJECT_MATERIAL.tag (ms ! index) = t
        then FindMaterial_loop ms t
               (material\<lparr>ambientColor := ambientColor (ms ! index),
                         ambientStrength := ambientStrength (ms ! index),
                         diffuseColor := diffuseColor (ms ! index),
                         specularColor := specularColor (ms ! index),
                         shininess := shininess (ms ! index)\<rparr>)
               index True
        else FindMaterial_loop ms t material (index + 1) bFound
      else (material, index, bFound))"
  by pat_completeness auto
termination
  by (relation "measure (\<lambda>(ms, t, material, index, bFound).
        2 * (length ms - index) + (if bFound then 0 else 1))") auto

definition FindMaterial ::
  "string \<Rightarrow> 'f OBJECT_MATERIAL \<Rightarrow> ('f, 'm) SceneManager
     \<Rightarrow> bool \<times> 'f OBJECT_MATERIAL \<times> ('f, 'm) SceneManager" where
  "FindMaterial t material s =
     (if length (m_objectMaterials s) = 0 then (False, material, s)
      else case FindMaterial_loop (m_objectMaterials s) t material 0 False of
             (material', index, bFound) \<Rightarrow> (True, material', s))"

subsection \<open>Setting shader values\<close>

text \<open>
  Lines 265-295. The five matrices are computed whether or not a shader manager is
  present; the product is taken left to right, as \<^verbatim>\<open>*\<close> associates in C++.
\<close>

definition SetTransformations ::
  "('f, 'm) glm \<Rightarrow> 'f vec3 \<Rightarrow> 'f \<Rightarrow> 'f \<Rightarrow> 'f \<Rightarrow> 'f vec3 \<Rightarrow> ('f, 'm) SceneManager
     \<Rightarrow> ('f, 'm) SceneManager" where
  "SetTransformations g scaleXYZ XrotationDegrees YrotationDegrees ZrotationDegrees positionXYZ s =
     (let scale = glm_scale g scaleXYZ;
          rotationX = glm_rotate g (glm_radians g XrotationDegrees)
                        (float_lit g 1.0, float_lit g 0.0, float_lit g 0.0);
          rotationY = glm_rotate g (glm_radians g YrotationDegrees)
                        (float_lit g 0.0, float_lit g 1.0, float_lit g 0.0);
          rotationZ = glm_rotate g (glm_radians g ZrotationDegrees)
                        (float_lit g 0.0, float_lit g 0.0, float_lit g 1.0);
          translation = glm_translate g positionXYZ;
          modelView =
            mat4_mul g (mat4_mul g (mat4_mul g (mat4_mul g translation rotationX) rotationY)
              rotationZ) scale
      in if m_pShaderManager s \<noteq> None
         then s\<lparr>shader_calls := shader_calls s @ [setMat4Value g_ModelName modelView]\<rparr>
         else s)"

text \<open>Lines 303-322. \<^verbatim>\<open>setIntValue(g_UseTextureName, false)\<close> passes the integer 0.\<close>

definition SetShaderColor ::
  "'f \<Rightarrow> 'f \<Rightarrow> 'f \<Rightarrow> 'f \<Rightarrow> ('f, 'm) SceneManager \<Rightarrow> ('f, 'm) SceneManager" where
  "SetShaderColor redColorValue greenColorValue blueColorValue alphaValue s =
     (let currentColor = (redColorValue, greenColorValue, blueColorValue, alphaValue)
      in if m_pShaderManager s \<noteq> None
         then s\<lparr>shader_calls := shader_calls s @
                  [setIntValue g_UseTextureName 0, setVec4Value g_ColorValueName currentColor]\<rparr>
         else s)"

text \<open>
  Lines 330-341. The slot is looked up only inside the null test; a miss passes \<open>- 1\<close> to
  the sampler.
\<close>

definition SetShaderTexture ::
  "string \<Rightarrow> ('f, 'm) SceneManager \<Rightarrow> fault + ('f, 'm) SceneManager" where
  "SetShaderTexture textureTag s =
     (if m_pShaderManager s \<noteq> None then
        let s1 = s\<lparr>shader_calls := shader_calls s @ [setIntValue g_UseTextureName 1]\<rparr>
        in case FindTextureSlot textureTag s1 of
             Inl e \<Rightarrow> Inl e
           | Inr (textureID, s2) \<Rightarrow>
               Inr (s2\<lparr>shader_calls := shader_calls s2 @
                          [setSampler2DValue g_TextureValueName textureID]\<rparr>)
      else Inr s)"

text \<open>Lines 349-355.\<close>

definition SetTextureUVScale ::
  "'f \<Rightarrow> 'f \<Rightarrow> ('f, 'm) SceneManager \<Rightarrow> ('f, 'm) SceneManager" where
  "SetTextureUVScale u v s =
     (if m_pShaderManager s \<noteq> None
      then s\<lparr>shader_calls := shader_calls s @ [setVec2Value ''UVscale'' (u, v)]\<rparr>
      else s)"

text \<open>
  Lines 363-381. The caller of \<^verbatim>\<open>FindMaterial\<close>: it sends the material to the shader only
  when the lookup reports success, and it calls through \<^verbatim>\<open>m_pShaderManager\<close> without a
  null test. \<open>uninit\<close> is the value of the local \<^verbatim>\<open>material\<close> before the lookup.
\<close>

definition SetShaderMaterial ::
  "'f OBJECT_MATERIAL \<Rightarrow> string \<Rightarrow> ('f, 'm) SceneManager \<Rightarrow> fault + ('f, 'm) SceneManager" where
  "SetShaderMaterial uninit materialTag s =
     (if length (m_objectMaterials s) > 0 then
        case FindMaterial materialTag uninit s of
          (bReturn, material, s1) \<Rightarrow>
            if bReturn = True then
              if m_pShaderManager s1 = None then Inl NullPointer
              else Inr (s1\<lparr>shader_calls := shader_calls s1 @
                     [setVec3Value ''material.ambientColor'' (ambientColor material),
                      setFloatValue ''material.ambientStrength'' (ambientStrength material),
                      setVec3Value ''material.diffuseColor'' (diffuseColor material),
                      setVec3Value ''material.specularColor'' (specularColor material),
                      setFloatValue ''material.shininess'' (shininess material)]\<rparr>)
            else Inr s1
      else Inr s)"

subsection \<open>DefineObjectMaterials\<close>

text \<open>
  Lines 469-545. Each local is filled field by field and pushed to the back of the vector.
  The colour components and strengths are \<^verbatim>\<open>float\<close> literals, the shininess values
  \<^verbatim>\<open>double\<close> literals.
\<close>

definition DefineObjectMaterials ::
  "('f, 'm) glm \<Rightarrow> ('f, 'm) SceneManager \<Rightarrow> ('f, 'm) SceneManager" where
  "DefineObjectMaterials g s =
     (let f = float_lit g; d = double_lit g;
          push_back = (\<lambda>m s. s\<lparr>m_objectMaterials := m_objectMaterials s @ [m]\<rparr>);
          silver = \<lparr>ambientColor = (f 0.09225, f 0.09225, f 0.09225),
                    ambientStrength = f 0.1,
                    diffuseColor = (f 0.40754, f 0.40754, f 0.40754),
                    specularColor = (f 0.408273, f 0.408273, f 0.408273),
                    shininess = d 1.0,
                    tag = ''silver''\<rparr>;
          s = push_back silver s;
          goldMaterial = \<lparr>ambientColor = (f 0.2, f 0.2, f 0.2),
                          ambientStrength = f 0.3,
                          diffuseColor = (f 0.2, f 0.2, f 0.2),
                          specularColor = (f 0.5, f 0.5, f 0.5),
                          shininess = d 22.0,
                          tag = ''metal''\<rparr>;
          s = push_back goldMaterial s;
          blackMetalMaterial = \<lparr>ambientColor = (f 0.02, f 0.02, f 0.02),
                                ambientStrength = f 0.01,
                                diffuseColor = (f 0.01, f 0.01, f 0.01),
                                specularColor = (f 0.01, f 0.01, f 0.01),
                                shininess = d 0.01,
                                tag = ''blackmetal''\<rparr>;
          s = push_back blackMetalMaterial s;
          blueWoodMaterial = \<lparr>ambientColor = (f 0.01, f 0.01, f 0.01),
                              ambientStrength = f 0.1,
                              diffuseColor = (f 0.1, f 0.1, f 0.2),
                              specularColor = (f 0.1, f 0.1, f 0.3),
                              shininess = d 0.1,
                              tag = ''bluewood''\<rparr>;
          s = push_back blueWoodMaterial s;
          cheeseMaterial = \<lparr>ambientColor = (f 0.01, f 0.01, f 0.01),
                            ambientStrength = f 0.1,
                            diffuseColor = (f 0.6, f 0.6, f 0.6),
                            specularColor = (f 0.1, f 0.1, f 0.1),
                            shininess = d 0.3,
                            tag = ''cheese''\<rparr>;
          s = push_back cheeseMaterial s;
          turqoiseMaterial = \<lparr>ambientColor = (f 0.1, f 0.18725, f 0.1745),
                              ambientStrength = f 0.2,
                              diffuseColor = (f 0.396, f 0.74151, f 0.69102),
                              specularColor = (f 0.297254, f 0.30829, f 0.306678),
                              shininess = d 0.1,
                              tag = ''turqoise''\<rparr>;
          s = push_back turqoiseMaterial s
      in s)"

subsection \<open>Well-formed objects\<close>

text \<open>
  The array has sixteen entries and the counter stays within it. The constructor
  establishes this and every \<^verbatim>\<open>CreateGLTexture\<close> that returns keeps it.
\<close>

definition well_formed :: "('f, 'm) SceneManager \<Rightarrow> bool" where
  "well_formed s = (length (m_textureIDs s) = 16 \<and> 0 \<le> m_loadedTextures s \<and> m_loadedTextures s \<le> 16)"

text \<open>The entries in use: the first \<^verbatim>\<open>m_loadedTextures\<close> of the array, in load order.\<close>

definition loaded_entries :: "('f, 'm) SceneManager \<Rightarrow> TEXTURE_INFO list" where
  "loaded_entries s = take (nat (m_loadedTextures s)) (m_textureIDs s)"

text \<open>The entry a successful call writes, and the calls of a run that succeed.\<close>

definition entry_of :: "string \<times> string \<times> 32 word \<Rightarrow> TEXTURE_INFO" where
  "entry_of c = \<lparr>TEXTURE_INFO.tag = fst (snd c), ID = snd (snd c)\<rparr>"

definition successful ::
  "(string \<Rightarrow> image option) \<Rightarrow> (string \<times> string \<times> 32 word) list
     \<Rightarrow> (string \<times> string \<times> 32 word) list" where
  "successful stbi_load_result calls = filter (\<lambda>c. loads stbi_load_result (fst c)) calls"

subsection \<open>Concrete objects and files\<close>

text \<open>
  A disk with an RGB file, an RGBA file, a one-channel file and nothing else; an object
  with three textures in use, two of them under the tag \<open>pot\<close>; an object whose table is
  full.
\<close>

definition disk :: "string \<Rightarrow> image option" where
  "disk filename =
     (if filename = ''PotGold.jpg'' then Some \<lparr>width = 512, height = 512, colorChannels = 3\<rparr>
      else if filename = ''leaf.png'' then Some \<lparr>width = 64, height = 32, colorChannels = 4\<rparr>
      else if filename = ''grey.png'' then Some \<lparr>width = 8, height = 8, colorChannels = 1\<rparr>
      else None)"

text \<open>
  An interpretation of glm in which a matrix is the expression that built it, so that the
  order and the bracketing of a product can be read off the value.
\<close>

datatype 'f mat_expr =
    Scale "'f vec3"
  | Rotate 'f "'f vec3"
  | Translate "'f vec3"
  | Mul "'f mat_expr" "'f mat_expr"

definition symbolic_glm :: "(rat, rat mat_expr) glm" where
  "symbolic_glm =
     \<lparr> float_lit = (\<lambda>q. q), double_lit = (\<lambda>q. q),
       glm_radians = (\<lambda>d. d * (355 / 113) / 180),
       glm_scale = Scale, glm_rotate = Rotate, glm_translate = Translate,
       mat4_mul = Mul \<rparr>"

definition two_pots :: "(rat, rat mat_expr) SceneManager" where
  "two_pots =
     \<lparr> m_pShaderManager = Some 0,
       m_textureIDs =
         [\<lparr>TEXTURE_INFO.tag = ''pot'', ID = 5\<rparr>, \<lparr>TEXTURE_INFO.tag = ''gold'', ID = 6\<rparr>,
          \<lparr>TEXTURE_INFO.tag = ''pot'', ID = 7\<rparr>]
         @ replicate 13 \<lparr>TEXTURE_INFO.tag = ''/0'', ID = - 1\<rparr>,
       m_loadedTextures = 3,
       m_objectMaterials = [],
       shader_calls = [],
       gl_calls = [] \<rparr>"

definition full_table :: "(rat, rat mat_expr) SceneManager" where
  "full_table =
     \<lparr> m_pShaderManager = Some 0,
       m_textureIDs = map (\<lambda>i. \<lparr>TEXTURE_INFO.tag = ''t'', ID = of_nat i\<rparr>) [0..<16],
       m_loadedTextures = 16,
       m_objectMaterials = [],
       shader_calls = [],
       gl_calls = [] \<rparr>"

text \<open>
  A run of four calls, of which the second finds no file and the third a one-channel image,
  and a run of sixteen calls that all succeed.
\<close>

definition four_calls :: "(string \<times> string \<times> 32 word) list" where
  "four_calls =
     [(''PotGold.jpg'', ''pot'', 5), (''missing.jpg'', ''ghost'', 6),
      (''grey.png'', ''grey'', 7), (''leaf.png'', ''leaf'', 8)]"

definition sixteen_calls :: "(string \<times> string \<times> 32 word) list" where
  "sixteen_calls = replicate 16 (''PotGold.jpg'', ''pot'', 5)"

text \<open>
  The object after the constructor and \<^verbatim>\<open>DefineObjectMaterials\<close>, as \<^verbatim>\<open>PrepareScene\<close> builds
  it before any texture is loaded, and a material record to pass to \<^verbatim>\<open>FindMaterial\<close>.
\<close>

definition six_materials :: "(rat, rat mat_expr) SceneManager" where
  "six_materials = DefineObjectMaterials symbolic_glm (SceneManager_ctor (Some 0) (\<lambda>i. 0))"

definition blank :: "rat OBJECT_MATERIAL" where
  "blank = \<lparr>ambientColor = (0, 0, 0), ambientStrength = 0, diffuseColor = (0, 0, 0),
            specularColor = (0, 0, 0), shininess = 0, tag = ''''\<rparr>"

text \<open>
  The object with three textures after \<^verbatim>\<open>DefineObjectMaterials\<close>, and the same object
  with no shader manager.
\<close>

definition furnished :: "(rat, rat mat_expr) SceneManager" where
  "furnished = DefineObjectMaterials symbolic_glm two_pots"

definition null_shader :: "(rat, rat mat_expr) SceneManager" where
  "null_shader = two_pots\<lparr>m_pShaderManager := None\<rparr>"

section \<open>The loops\<close>

text \<open>
  Each loop is characterised twice: when no entry from \<open>index\<close> on carries the tag, and
  when entry \<open>i\<close> is the first that does. The loop equations are unfolded one step at a
  time.
\<close>

declare FindTextureID_loop.simps [simp del]
declare FindTextureSlot_loop.simps [simp del]
declare FindMaterial_loop.simps [simp del]

lemma FindTextureID_loop_found [simp]:
  "FindTextureID_loop arr loaded t textureID index True = Inr textureID"
  by (subst FindTextureID_loop.simps) simp

lemma FindTextureID_loop_miss_aux:
  "\<not> bFound \<Longrightarrow> 0 \<le> index \<Longrightarrow> loaded \<le> int (length arr) \<Longrightarrow>
   (\<And>j. index \<le> j \<Longrightarrow> j < loaded \<Longrightarrow> TEXTURE_INFO.tag (arr ! nat j) \<noteq> t) \<Longrightarrow>
   FindTextureID_loop arr loaded t textureID index bFound = Inr textureID"
proof (induction arr loaded t textureID index bFound rule: FindTextureID_loop.induct)
  case (1 arr loaded t textureID index bFound)
  show ?case
  proof (cases "index < loaded")
    case True
    then have ne: "TEXTURE_INFO.tag (arr ! nat index) \<noteq> t" using "1.prems" by simp
    have "FindTextureID_loop arr loaded t textureID (index + 1) bFound = Inr textureID"
      using True "1.prems" ne by (intro "1.IH"(2)) auto
    then show ?thesis using True "1.prems" ne
      by (subst FindTextureID_loop.simps) simp
  next
    case False
    then show ?thesis by (subst FindTextureID_loop.simps) simp
  qed
qed

lemma FindTextureID_loop_first_aux:
  "\<not> bFound \<Longrightarrow> 0 \<le> index \<Longrightarrow> loaded \<le> int (length arr) \<Longrightarrow> index \<le> i \<Longrightarrow> i < loaded \<Longrightarrow>
   TEXTURE_INFO.tag (arr ! nat i) = t \<Longrightarrow>
   (\<And>j. index \<le> j \<Longrightarrow> j < i \<Longrightarrow> TEXTURE_INFO.tag (arr ! nat j) \<noteq> t) \<Longrightarrow>
   FindTextureID_loop arr loaded t textureID index bFound = Inr (sint (ID (arr ! nat i)))"
proof (induction arr loaded t textureID index bFound rule: FindTextureID_loop.induct)
  case (1 arr loaded t textureID index bFound)
  show ?case
  proof (cases "index = i")
    case True
    then show ?thesis using "1.prems"
      by (subst FindTextureID_loop.simps) simp
  next
    case False
    then have ne: "TEXTURE_INFO.tag (arr ! nat index) \<noteq> t" and lt: "index < i"
      using "1.prems" by auto
    have "FindTextureID_loop arr loaded t textureID (index + 1) bFound = Inr (sint (ID (arr ! nat i)))"
      using lt ne "1.prems" by (intro "1.IH"(2)) auto
    then show ?thesis using lt ne "1.prems"
      by (subst FindTextureID_loop.simps) simp
  qed
qed

lemma FindTextureSlot_loop_found [simp]:
  "FindTextureSlot_loop arr loaded t textureSlot index True = Inr textureSlot"
  by (subst FindTextureSlot_loop.simps) simp

lemma FindTextureSlot_loop_miss_aux:
  "\<not> bFound \<Longrightarrow> 0 \<le> index \<Longrightarrow> loaded \<le> int (length arr) \<Longrightarrow>
   (\<And>j. index \<le> j \<Longrightarrow> j < loaded \<Longrightarrow> TEXTURE_INFO.tag (arr ! nat j) \<noteq> t) \<Longrightarrow>
   FindTextureSlot_loop arr loaded t textureSlot index bFound = Inr textureSlot"
proof (induction arr loaded t textureSlot index bFound rule: FindTextureSlot_loop.induct)
  case (1 arr loaded t textureSlot index bFound)
  show ?case
  proof (cases "index < loaded")
    case True
    then have ne: "TEXTURE_INFO.tag (arr ! nat index) \<noteq> t" using "1.prems" by simp
    have "FindTextureSlot_loop arr loaded t textureSlot (index + 1) bFound = Inr textureSlot"
      using True "1.prems" ne by (intro "1.IH"(2)) auto
    then show ?thesis using True "1.prems" ne
      by (subst FindTextureSlot_loop.simps) simp
  next
    case False
    then show ?thesis by (subst FindTextureSlot_loop.simps) simp
  qed
qed

lemma FindTextureSlot_loop_first_aux:
  "\<not> bFound \<Longrightarrow> 0 \<le> index \<Longrightarrow> loaded \<le> int (length arr) \<Longrightarrow> index \<le> i \<Longrightarrow> i < loaded \<Longrightarrow>
   TEXTURE_INFO.tag (arr ! nat i) = t \<Longrightarrow>
   (\<And>j. index \<le> j \<Longrightarrow> j < i \<Longrightarrow> TEXTURE_INFO.tag (arr ! nat j) \<noteq> t) \<Longrightarrow>
   FindTextureSlot_loop arr loaded t textureSlot index bFound = Inr i"
proof (induction arr loaded t textureSlot index bFound rule: FindTextureSlot_loop.induct)
  case (1 arr loaded t textureSlot index bFound)
  show ?case
  proof (cases "index = i")
    case True
    then show ?thesis using "1.prems"
      by (subst FindTextureSlot_loop.simps) simp
  next
    case False
    then have ne: "TEXTURE_INFO.tag (arr ! nat index) \<noteq> t" and lt: "index < i"
      using "1.prems" by auto
    have "FindTextureSlot_loop arr loaded t textureSlot (index + 1) bFound = Inr i"
      using lt ne "1.prems" by (intro "1.IH"(2)) auto
    then show ?thesis using lt ne "1.prems"
      by (subst FindTextureSlot_loop.simps) simp
  qed
qed

lemma FindMaterial_loop_found [simp]:
  "FindMaterial_loop ms t material index True = (material, index, True)"
  by (subst FindMaterial_loop.simps) simp

lemma FindMaterial_loop_miss_aux:
  "\<not> bFound \<Longrightarrow>
   (\<And>j. index \<le> j \<Longrightarrow> j < length ms \<Longrightarrow> OBJECT_MATERIAL.tag (ms ! j) \<noteq> t) \<Longrightarrow>
   FindMaterial_loop ms t material index bFound = (material, max index (length ms), False)"
proof (induction ms t material index bFound rule: FindMaterial_loop.induct)
  case (1 ms t material index bFound)
  show ?case
  proof (cases "index < length ms")
    case True
    then have ne: "OBJECT_MATERIAL.tag (ms ! index) \<noteq> t" using "1.prems" by simp
    have "FindMaterial_loop ms t material (index + 1) bFound = (material, max (index + 1) (length ms), False)"
      using True "1.prems" ne by (intro "1.IH"(2)) auto
    then show ?thesis using True "1.prems" ne
      by (subst FindMaterial_loop.simps) (simp add: max_def)
  next
    case False
    then show ?thesis using "1.prems" by (subst FindMaterial_loop.simps) (simp add: max_def)
  qed
qed

lemma FindMaterial_loop_first_aux:
  "\<not> bFound \<Longrightarrow> index \<le> i \<Longrightarrow> i < length ms \<Longrightarrow>
   OBJECT_MATERIAL.tag (ms ! i) = t \<Longrightarrow>
   (\<And>j. index \<le> j \<Longrightarrow> j < i \<Longrightarrow> OBJECT_MATERIAL.tag (ms ! j) \<noteq> t) \<Longrightarrow>
   FindMaterial_loop ms t material index bFound =
     (material\<lparr>ambientColor := ambientColor (ms ! i),
               ambientStrength := ambientStrength (ms ! i),
               diffuseColor := diffuseColor (ms ! i),
               specularColor := specularColor (ms ! i),
               shininess := shininess (ms ! i)\<rparr>, i, True)"
proof (induction ms t material index bFound rule: FindMaterial_loop.induct)
  case (1 ms t material index bFound)
  show ?case
  proof (cases "index = i")
    case True
    then show ?thesis using "1.prems"
      by (subst FindMaterial_loop.simps) simp
  next
    case False
    then have ne: "OBJECT_MATERIAL.tag (ms ! index) \<noteq> t" and lt: "index < i"
      using "1.prems" by auto
    have "FindMaterial_loop ms t material (index + 1) bFound =
     (material\<lparr>ambientColor := ambientColor (ms ! i),
               ambientStrength := ambientStrength (ms ! i),
               diffuseColor := diffuseColor (ms ! i),
               specularColor := specularColor (ms ! i),
               shininess := shininess (ms ! i)\<rparr>, i, True)"
      using lt ne "1.prems" by (intro "1.IH"(2)) auto
    then show ?thesis using lt ne "1.prems"
      by (subst FindMaterial_loop.simps) simp
  qed
qed

section \<open>Lookups on a well-formed object\<close>

lemma loaded_entries_nth:
  "well_formed s \<Longrightarrow> i < length (loaded_entries s) \<Longrightarrow>
   loaded_entries s ! i = m_textureIDs s ! i \<and> int i < m_loadedTextures s"
  by (auto simp: loaded_entries_def well_formed_def)

lemma length_loaded_entries:
  "well_formed s \<Longrightarrow> length (loaded_entries s) = nat (m_loadedTextures s)"
  by (auto simp: loaded_entries_def well_formed_def)

lemma FindTextureID_miss:
  assumes "well_formed s" and "\<forall>e \<in> set (loaded_entries s). TEXTURE_INFO.tag e \<noteq> t"
  shows "FindTextureID t s = Inr (- 1, s)"
proof -
  have "FindTextureID_loop (m_textureIDs s) (m_loadedTextures s) t (- 1) 0 False = Inr (- 1)"
  proof (rule FindTextureID_loop_miss_aux)
    fix j :: int assume j: "0 \<le> j" "j < m_loadedTextures s"
    then have "nat j < length (loaded_entries s)"
      using assms(1) by (simp add: length_loaded_entries)
    then have "loaded_entries s ! nat j \<in> set (loaded_entries s)"
      and "loaded_entries s ! nat j = m_textureIDs s ! nat j"
      using assms(1) by (simp, simp add: loaded_entries_nth)
    then show "TEXTURE_INFO.tag (m_textureIDs s ! nat j) \<noteq> t"
      using assms(2) by metis
  qed (use assms(1) in \<open>simp_all add: well_formed_def\<close>)
  then show ?thesis by (simp add: FindTextureID_def)
qed

lemma FindTextureSlot_miss:
  assumes "well_formed s" and "\<forall>e \<in> set (loaded_entries s). TEXTURE_INFO.tag e \<noteq> t"
  shows "FindTextureSlot t s = Inr (- 1, s)"
proof -
  have "FindTextureSlot_loop (m_textureIDs s) (m_loadedTextures s) t (- 1) 0 False = Inr (- 1)"
  proof (rule FindTextureSlot_loop_miss_aux)
    fix j :: int assume j: "0 \<le> j" "j < m_loadedTextures s"
    then have "nat j < length (loaded_entries s)"
      using assms(1) by (simp add: length_loaded_entries)
    then have "loaded_entries s ! nat j \<in> set (loaded_entries s)"
      and "loaded_entries s ! nat j = m_textureIDs s ! nat j"
      using assms(1) by (simp, simp add: loaded_entries_nth)
    then show "TEXTURE_INFO.tag (m_textureIDs s ! nat j) \<noteq> t"
      using assms(2) by metis
  qed (use assms(1) in \<open>simp_all add: well_formed_def\<close>)
  then show ?thesis by (simp add: FindTextureSlot_def)
qed

lemma first_match_array:
  assumes "well_formed s" and "i < length (loaded_entries s)"
    and "TEXTURE_INFO.tag (loaded_entries s ! i) = t"
    and "\<forall>j<i. TEXTURE_INFO.tag (loaded_entries s ! j) \<noteq> t"
  shows "int i < m_loadedTextures s"
    and "TEXTURE_INFO.tag (m_textureIDs s ! nat (int i)) = t"
    and "\<And>j. 0 \<le> j \<Longrightarrow> j < int i \<Longrightarrow> TEXTURE_INFO.tag (m_textureIDs s ! nat j) \<noteq> t"
    and "m_textureIDs s ! i = loaded_entries s ! i"
proof -
  show "int i < m_loadedTextures s" using assms(1,2) by (simp add: loaded_entries_nth)
  show "TEXTURE_INFO.tag (m_textureIDs s ! nat (int i)) = t"
    using assms(1,2,3) by (simp add: loaded_entries_nth)
  show "m_textureIDs s ! i = loaded_entries s ! i"
    using assms(1,2) by (simp add: loaded_entries_nth)
  fix j :: int assume j: "0 \<le> j" "j < int i"
  then have "nat j < i" by simp
  moreover from this have "nat j < length (loaded_entries s)" using assms(2) by simp
  ultimately show "TEXTURE_INFO.tag (m_textureIDs s ! nat j) \<noteq> t"
    using assms(1,4) loaded_entries_nth by metis
qed

lemma FindTextureID_first:
  assumes "well_formed s" and "i < length (loaded_entries s)"
    and "TEXTURE_INFO.tag (loaded_entries s ! i) = t"
    and "\<forall>j<i. TEXTURE_INFO.tag (loaded_entries s ! j) \<noteq> t"
  shows "FindTextureID t s = Inr (sint (ID (loaded_entries s ! i)), s)"
proof -
  note fm = first_match_array [OF assms]
  have "FindTextureID_loop (m_textureIDs s) (m_loadedTextures s) t (- 1) 0 False
          = Inr (sint (ID (m_textureIDs s ! nat (int i))))"
    by (rule FindTextureID_loop_first_aux)
       (use assms(1) fm in \<open>simp_all add: well_formed_def\<close>)
  then show ?thesis using fm(4) by (simp add: FindTextureID_def)
qed

lemma FindTextureSlot_first:
  assumes "well_formed s" and "i < length (loaded_entries s)"
    and "TEXTURE_INFO.tag (loaded_entries s ! i) = t"
    and "\<forall>j<i. TEXTURE_INFO.tag (loaded_entries s ! j) \<noteq> t"
  shows "FindTextureSlot t s = Inr (int i, s)"
proof -
  note fm = first_match_array [OF assms]
  have "FindTextureSlot_loop (m_textureIDs s) (m_loadedTextures s) t (- 1) 0 False = Inr (int i)"
    by (rule FindTextureSlot_loop_first_aux)
       (use assms(1) fm in \<open>simp_all add: well_formed_def\<close>)
  then show ?thesis by (simp add: FindTextureSlot_def)
qed

lemma well_formed_two_pots: "well_formed two_pots"
  by (simp add: well_formed_def two_pots_def)

lemma loaded_entries_two_pots:
  "loaded_entries two_pots =
     [\<lparr>TEXTURE_INFO.tag = ''pot'', ID = 5\<rparr>, \<lparr>TEXTURE_INFO.tag = ''gold'', ID = 6\<rparr>,
      \<lparr>TEXTURE_INFO.tag = ''pot'', ID = 7\<rparr>]"
  by (simp add: loaded_entries_def two_pots_def numeral_3_eq_3)

section \<open>Loading textures\<close>

text \<open>
  What one call of \<^verbatim>\<open>CreateGLTexture\<close> does in each of its three cases, and what a run of
  calls leaves in the table.
\<close>

lemma TEXTURE_INFO_overwrite:
  "(e :: TEXTURE_INFO)\<lparr>ID := h, TEXTURE_INFO.tag := t\<rparr> = \<lparr>TEXTURE_INFO.tag = t, ID = h\<rparr>"
  by (cases e) simp

lemma register_texture_ok:
  assumes "0 \<le> m_loadedTextures s" and "m_loadedTextures s < int (length (m_textureIDs s))"
  shows "register_texture textureID t s =
           Inr (True, s\<lparr>m_textureIDs := (m_textureIDs s)[nat (m_loadedTextures s) :=
                            \<lparr>TEXTURE_INFO.tag = t, ID = textureID\<rparr>],
                         m_loadedTextures := m_loadedTextures s + 1\<rparr>)"
  using assms by (simp add: register_texture_def Let_def TEXTURE_INFO_overwrite)

lemma register_texture_overflow:
  assumes "\<not> (0 \<le> m_loadedTextures s \<and> m_loadedTextures s < int (length (m_textureIDs s)))"
  shows "register_texture textureID t s = Inl (OutOfBounds (m_loadedTextures s))"
  using assms by (simp add: register_texture_def Let_def)

lemma CreateGLTexture_fails:
  assumes "\<not> loads fs filename"
  shows "\<exists>s'. CreateGLTexture fs fresh filename t s = Inr (False, s') \<and>
              m_textureIDs s' = m_textureIDs s \<and> m_loadedTextures s' = m_loadedTextures s \<and>
              m_objectMaterials s' = m_objectMaterials s \<and>
              m_pShaderManager s' = m_pShaderManager s \<and> shader_calls s' = shader_calls s"
  using assms by (auto simp: CreateGLTexture_def loads_def Let_def split: option.splits)

lemma CreateGLTexture_succeeds:
  assumes "loads fs filename"
    and "0 \<le> m_loadedTextures s" and "m_loadedTextures s < int (length (m_textureIDs s))"
  shows "\<exists>s'. CreateGLTexture fs fresh filename t s = Inr (True, s') \<and>
              m_textureIDs s' = (m_textureIDs s)[nat (m_loadedTextures s) :=
                                   \<lparr>TEXTURE_INFO.tag = t, ID = fresh\<rparr>] \<and>
              m_loadedTextures s' = m_loadedTextures s + 1 \<and>
              m_objectMaterials s' = m_objectMaterials s \<and>
              m_pShaderManager s' = m_pShaderManager s \<and> shader_calls s' = shader_calls s"
  using assms
  by (auto simp: CreateGLTexture_def loads_def Let_def register_texture_ok split: option.splits)

lemma CreateGLTexture_overflows:
  assumes "loads fs filename"
    and "\<not> (0 \<le> m_loadedTextures s \<and> m_loadedTextures s < int (length (m_textureIDs s)))"
  shows "CreateGLTexture fs fresh filename t s = Inl (OutOfBounds (m_loadedTextures s))"
  using assms
  by (auto simp: CreateGLTexture_def loads_def Let_def register_texture_overflow
           split: option.splits)

lemma CreateGLTexture_true_iff:
  "CreateGLTexture fs fresh filename t s = Inr (True, s') \<Longrightarrow> loads fs filename"
  by (auto simp: CreateGLTexture_def loads_def Let_def register_texture_def
           split: option.splits if_splits)

lemma loaded_entries_append:
  assumes "well_formed s" and "m_loadedTextures s < 16"
    and "m_textureIDs s' = (m_textureIDs s)[nat (m_loadedTextures s) := e]"
    and "m_loadedTextures s' = m_loadedTextures s + 1"
  shows "well_formed s'" and "loaded_entries s' = loaded_entries s @ [e]"
proof -
  let ?n = "nat (m_loadedTextures s)"
  have n: "?n < length (m_textureIDs s)" "nat (m_loadedTextures s + 1) = Suc ?n"
    using assms(1,2) by (auto simp: well_formed_def)
  show "well_formed s'" using assms by (simp add: well_formed_def)
  show "loaded_entries s' = loaded_entries s @ [e]"
    using n by (simp add: loaded_entries_def assms(3,4) take_Suc_conv_app_nth)
qed

lemma loaded_entries_same:
  "m_textureIDs s' = m_textureIDs s \<Longrightarrow> m_loadedTextures s' = m_loadedTextures s \<Longrightarrow>
   loaded_entries s' = loaded_entries s \<and> well_formed s' = well_formed s"
  by (simp add: loaded_entries_def well_formed_def)

lemma successful_Cons:
  "successful fs (c # calls) = (if loads fs (fst c) then c # successful fs calls else successful fs calls)"
  by (simp add: successful_def)

lemma CreateGLTexture_run_entries:
  assumes "well_formed s0"
    and "m_loadedTextures s0 + int (length (successful fs calls)) \<le> 16"
  shows "\<exists>s. CreateGLTexture_run fs calls s0 = Inr s \<and> well_formed s \<and>
             loaded_entries s = loaded_entries s0 @ map entry_of (successful fs calls) \<and>
             m_objectMaterials s = m_objectMaterials s0 \<and>
             m_pShaderManager s = m_pShaderManager s0 \<and> shader_calls s = shader_calls s0"
  using assms
proof (induction calls arbitrary: s0)
  case Nil
  then show ?case by (simp add: successful_def)
next
  case (Cons c calls)
  obtain filename t fresh where c: "c = (filename, t, fresh)" by (cases c)
  show ?case
  proof (cases "loads fs filename")
    case True
    then have lt: "m_loadedTextures s0 < 16"
      using Cons.prems(2) by (simp add: successful_Cons c)
    then have "0 \<le> m_loadedTextures s0" "m_loadedTextures s0 < int (length (m_textureIDs s0))"
      using Cons.prems(1) by (auto simp: well_formed_def)
    from CreateGLTexture_succeeds [OF True this, of fresh t]
    obtain s1 where s1: "CreateGLTexture fs fresh filename t s0 = Inr (True, s1)"
      "m_textureIDs s1 = (m_textureIDs s0)[nat (m_loadedTextures s0) :=
                                   \<lparr>TEXTURE_INFO.tag = t, ID = fresh\<rparr>]"
      "m_loadedTextures s1 = m_loadedTextures s0 + 1"
      "m_objectMaterials s1 = m_objectMaterials s0"
      "m_pShaderManager s1 = m_pShaderManager s0" "shader_calls s1 = shader_calls s0"
      by blast
    note app = loaded_entries_append [OF Cons.prems(1) lt s1(2,3)]
    have "m_loadedTextures s1 + int (length (successful fs calls)) \<le> 16"
      using Cons.prems(2) True by (simp add: successful_Cons c s1(3))
    from Cons.IH [OF app(1) this] obtain s where
      "CreateGLTexture_run fs calls s1 = Inr s" "well_formed s"
      "loaded_entries s = loaded_entries s1 @ map entry_of (successful fs calls)"
      "m_objectMaterials s = m_objectMaterials s1"
      "m_pShaderManager s = m_pShaderManager s1" "shader_calls s = shader_calls s1"
      by blast
    then show ?thesis
      using True s1 app(2) by (simp add: c successful_Cons entry_of_def)
  next
    case False
    from CreateGLTexture_fails [OF False, of fresh t s0]
    obtain s1 where s1: "CreateGLTexture fs fresh filename t s0 = Inr (False, s1)"
      "m_textureIDs s1 = m_textureIDs s0" "m_loadedTextures s1 = m_loadedTextures s0"
      "m_objectMaterials s1 = m_objectMaterials s0"
      "m_pShaderManager s1 = m_pShaderManager s0" "shader_calls s1 = shader_calls s0"
      by blast
    note same = loaded_entries_same [OF s1(2,3)]
    have "well_formed s1" using same Cons.prems(1) by simp
    moreover have "m_loadedTextures s1 + int (length (successful fs calls)) \<le> 16"
      using Cons.prems(2) False by (simp add: successful_Cons c s1(3))
    ultimately obtain s where
      "CreateGLTexture_run fs calls s1 = Inr s" "well_formed s"
      "loaded_entries s = loaded_entries s1 @ map entry_of (successful fs calls)"
      "m_objectMaterials s = m_objectMaterials s1"
      "m_pShaderManager s = m_pShaderManager s1" "shader_calls s = shader_calls s1"
      using Cons.IH by blast
    then show ?thesis
      using False s1 same by (simp add: c successful_Cons)
  qed
qed

lemma SceneManager_ctor_table:
  "m_textureIDs (SceneManager_ctor p junk :: ('f, 'm) SceneManager) =
     replicate 16 \<lparr>TEXTURE_INFO.tag = ''/0'', ID = - 1\<rparr>"
  by (simp add: SceneManager_ctor_def upt_rec numeral_eq_Suc)

lemma SceneManager_ctor_well_formed:
  "well_formed (SceneManager_ctor p junk)"
  "loaded_entries (SceneManager_ctor p junk) = []"
  "m_loadedTextures (SceneManager_ctor p junk) = 0"
  by (simp_all add: well_formed_def loaded_entries_def SceneManager_ctor_table)
     (simp_all add: SceneManager_ctor_def)

text \<open>
  The object \<open>two_pots\<close> is what three successful calls leave after the constructor,
  up to the log of OpenGL calls.
\<close>

lemma two_pots_reachable:
  "\<exists>s. CreateGLTexture_run disk
          [(''PotGold.jpg'', ''pot'', 5), (''leaf.png'', ''gold'', 6), (''PotGold.jpg'', ''pot'', 7)]
          (SceneManager_ctor (Some 0) junk) = Inr s \<and>
        s\<lparr>gl_calls := []\<rparr> = two_pots"
  by (simp add: CreateGLTexture_def register_texture_def disk_def Let_def two_pots_def
        SceneManager_ctor_def upt_rec numeral_eq_Suc)

lemma CreateGLTexture_run_capacity:
  assumes "well_formed s0" and "CreateGLTexture_run fs calls s0 = Inr s"
  shows "m_loadedTextures s0 + int (length (successful fs calls)) \<le> 16"
  using assms
proof (induction calls arbitrary: s0)
  case Nil
  then show ?case by (simp add: successful_def well_formed_def)
next
  case (Cons c calls)
  obtain filename t fresh where c: "c = (filename, t, fresh)" by (cases c)
  show ?case
  proof (cases "loads fs filename")
    case True
    show ?thesis
    proof (cases "m_loadedTextures s0 < 16")
      case lt: True
      then have "0 \<le> m_loadedTextures s0" "m_loadedTextures s0 < int (length (m_textureIDs s0))"
        using Cons.prems(1) by (auto simp: well_formed_def)
      from CreateGLTexture_succeeds [OF True this, of fresh t]
      obtain s1 where s1: "CreateGLTexture fs fresh filename t s0 = Inr (True, s1)"
        "m_textureIDs s1 = (m_textureIDs s0)[nat (m_loadedTextures s0) :=
                                     \<lparr>TEXTURE_INFO.tag = t, ID = fresh\<rparr>]"
        "m_loadedTextures s1 = m_loadedTextures s0 + 1"
        by blast
      note app = loaded_entries_append [OF Cons.prems(1) lt s1(2,3)]
      have "CreateGLTexture_run fs calls s1 = Inr s"
        using Cons.prems(2) s1(1) by (simp add: c)
      from Cons.IH [OF app(1) this] show ?thesis
        using True by (simp add: successful_Cons c s1(3))
    next
      case False
      then have "CreateGLTexture fs fresh filename t s0 = Inl (OutOfBounds (m_loadedTextures s0))"
        using Cons.prems(1) True by (intro CreateGLTexture_overflows) (auto simp: well_formed_def)
      then show ?thesis using Cons.prems(2) by (simp add: c)
    qed
  next
    case False
    from CreateGLTexture_fails [OF False, of fresh t s0]
    obtain s1 where s1: "CreateGLTexture fs fresh filename t s0 = Inr (False, s1)"
      "m_textureIDs s1 = m_textureIDs s0" "m_loadedTextures s1 = m_loadedTextures s0"
      by blast
    note same = loaded_entries_same [OF s1(2,3)]
    have wf1: "well_formed s1" using same Cons.prems(1) by simp
    have "CreateGLTexture_run fs calls s1 = Inr s"
      using Cons.prems(2) s1(1) by (simp add: c)
    from Cons.IH [OF wf1 this] show ?thesis
      using False by (simp add: successful_Cons c s1(3))
  qed
qed

lemma entries_resolve:
  assumes wf: "well_formed s"
    and ent: "loaded_entries s = map entry_of cs"
    and dist: "distinct (map (fst \<circ> snd) cs)"
  shows "\<forall>c \<in> set cs. FindTextureID (fst (snd c)) s = Inr (sint (snd (snd c)), s)"
    and "\<forall>t. t \<notin> set (map (fst \<circ> snd) cs) \<longrightarrow> FindTextureID t s = Inr (- 1, s)"
proof -
  show "\<forall>c \<in> set cs. FindTextureID (fst (snd c)) s = Inr (sint (snd (snd c)), s)"
  proof
    fix c assume "c \<in> set cs"
    then obtain i where i: "i < length cs" "cs ! i = c" by (auto simp: in_set_conv_nth)
    have len: "i < length (loaded_entries s)" using i ent by simp
    have at: "loaded_entries s ! i = entry_of c" using i ent by simp
    have first: "\<forall>j<i. TEXTURE_INFO.tag (loaded_entries s ! j) \<noteq> fst (snd c)"
    proof (intro allI impI)
      fix j assume j: "j < i"
      then have "map (fst \<circ> snd) cs ! j \<noteq> map (fst \<circ> snd) cs ! i"
        using dist i(1) nth_eq_iff_index_eq [of "map (fst \<circ> snd) cs" j i] by auto
      then show "TEXTURE_INFO.tag (loaded_entries s ! j) \<noteq> fst (snd c)"
        using j i ent by (simp add: entry_of_def)
    qed
    have "TEXTURE_INFO.tag (loaded_entries s ! i) = fst (snd c)"
      using at by (simp add: entry_of_def)
    from FindTextureID_first [OF wf len this first]
    show "FindTextureID (fst (snd c)) s = Inr (sint (snd (snd c)), s)"
      using at by (simp add: entry_of_def)
  qed
  show "\<forall>t. t \<notin> set (map (fst \<circ> snd) cs) \<longrightarrow> FindTextureID t s = Inr (- 1, s)"
  proof (intro allI impI)
    fix t assume "t \<notin> set (map (fst \<circ> snd) cs)"
    then have "\<forall>e \<in> set (loaded_entries s). TEXTURE_INFO.tag e \<noteq> t"
      using ent by (auto simp: entry_of_def)
    then show "FindTextureID t s = Inr (- 1, s)" by (rule FindTextureID_miss [OF wf])
  qed
qed

lemma successful_four_calls:
  "successful disk four_calls = [(''PotGold.jpg'', ''pot'', 5), (''leaf.png'', ''leaf'', 8)]"
  by (simp add: successful_def four_calls_def loads_def disk_def)

lemma successful_sixteen_calls: "successful disk sixteen_calls = sixteen_calls"
  by (simp add: successful_def sixteen_calls_def loads_def disk_def)

lemma FindTextureID_same_table:
  assumes "m_textureIDs s' = m_textureIDs s" and "m_loadedTextures s' = m_loadedTextures s"
  shows "map_sum id fst (FindTextureID t s') = map_sum id fst (FindTextureID t s)"
  using assms by (simp add: FindTextureID_def split: sum.splits)

lemma after_failed_load:
  "CreateGLTexture disk 9 ''missing.jpg'' ''pot'' two_pots =
     Inr (False, two_pots\<lparr>gl_calls :=
            [stbi_set_flip_vertically_on_load True, stbi_load ''missing.jpg'']\<rparr>)"
  by (simp add: CreateGLTexture_def disk_def two_pots_def)

section \<open>Materials, and lookups that always return\<close>

lemma FindMaterial_empty:
  "m_objectMaterials s = [] \<Longrightarrow> FindMaterial t material s = (False, material, s)"
  by (simp add: FindMaterial_def)

lemma FindMaterial_nonempty_true:
  "m_objectMaterials s \<noteq> [] \<Longrightarrow> fst (FindMaterial t material s) = True"
  by (simp add: FindMaterial_def split: prod.splits)

lemma FindMaterial_state: "snd (snd (FindMaterial t material s)) = s"
  by (simp add: FindMaterial_def split: prod.splits)

lemma FindMaterial_miss:
  assumes "m_objectMaterials s \<noteq> []"
    and "\<forall>m \<in> set (m_objectMaterials s). OBJECT_MATERIAL.tag m \<noteq> t"
  shows "FindMaterial t material s = (True, material, s)"
proof -
  have "FindMaterial_loop (m_objectMaterials s) t material 0 False
          = (material, max 0 (length (m_objectMaterials s)), False)"
    using assms(2) by (intro FindMaterial_loop_miss_aux) simp_all
  then show ?thesis using assms(1) by (simp add: FindMaterial_def)
qed

lemma FindMaterial_first:
  assumes "i < length (m_objectMaterials s)"
    and "OBJECT_MATERIAL.tag (m_objectMaterials s ! i) = t"
    and "\<forall>j<i. OBJECT_MATERIAL.tag (m_objectMaterials s ! j) \<noteq> t"
  shows "FindMaterial t material s =
           (True,
            material\<lparr>ambientColor := ambientColor (m_objectMaterials s ! i),
                     ambientStrength := ambientStrength (m_objectMaterials s ! i),
                     diffuseColor := diffuseColor (m_objectMaterials s ! i),
                     specularColor := specularColor (m_objectMaterials s ! i),
                     shininess := shininess (m_objectMaterials s ! i)\<rparr>,
            s)"
proof -
  have "FindMaterial_loop (m_objectMaterials s) t material 0 False =
          (material\<lparr>ambientColor := ambientColor (m_objectMaterials s ! i),
                     ambientStrength := ambientStrength (m_objectMaterials s ! i),
                     diffuseColor := diffuseColor (m_objectMaterials s ! i),
                     specularColor := specularColor (m_objectMaterials s ! i),
                     shininess := shininess (m_objectMaterials s ! i)\<rparr>, i, True)"
    using assms by (intro FindMaterial_loop_first_aux) simp_all
  then show ?thesis using assms(1) by (auto simp: FindMaterial_def)
qed

lemma DefineObjectMaterials_tags_append:
  "map OBJECT_MATERIAL.tag (m_objectMaterials (DefineObjectMaterials g s)) =
     map OBJECT_MATERIAL.tag (m_objectMaterials s) @
     [''silver'', ''metal'', ''blackmetal'', ''bluewood'', ''cheese'', ''turqoise'']"
  by (simp add: DefineObjectMaterials_def Let_def)

lemma DefineObjectMaterials_frame:
  "m_pShaderManager (DefineObjectMaterials g s) = m_pShaderManager s"
  "m_textureIDs (DefineObjectMaterials g s) = m_textureIDs s"
  "m_loadedTextures (DefineObjectMaterials g s) = m_loadedTextures s"
  "shader_calls (DefineObjectMaterials g s) = shader_calls s"
  "gl_calls (DefineObjectMaterials g s) = gl_calls s"
  by (simp_all add: DefineObjectMaterials_def Let_def)

lemma first_index_exists:
  assumes "\<exists>x \<in> set xs. P x"
  shows "\<exists>i. i < length xs \<and> P (xs ! i) \<and> (\<forall>j<i. \<not> P (xs ! j))"
proof -
  let ?Q = "\<lambda>i. i < length xs \<and> P (xs ! i)"
  from assms have "\<exists>i. ?Q i" by (auto simp: in_set_conv_nth)
  then have "?Q (LEAST i. ?Q i)" by (rule LeastI_ex)
  moreover have "\<not> P (xs ! j)" if "j < (LEAST i. ?Q i)" for j
  proof -
    from that have "\<not> ?Q j" by (rule not_less_Least)
    moreover have "j < length xs" using that \<open>?Q (LEAST i. ?Q i)\<close> by simp
    ultimately show ?thesis by simp
  qed
  ultimately show ?thesis by blast
qed

lemma FindTextureID_returns:
  assumes "well_formed s"
  shows "\<exists>r. FindTextureID t s = Inr (r, s)"
proof (cases "\<exists>e \<in> set (loaded_entries s). TEXTURE_INFO.tag e = t")
  case True
  from first_index_exists [OF True] obtain i where
    "i < length (loaded_entries s)" "TEXTURE_INFO.tag (loaded_entries s ! i) = t"
    "\<forall>j<i. TEXTURE_INFO.tag (loaded_entries s ! j) \<noteq> t" by blast
  from FindTextureID_first [OF assms this] show ?thesis by blast
next
  case False
  then have "\<forall>e \<in> set (loaded_entries s). TEXTURE_INFO.tag e \<noteq> t" by blast
  from FindTextureID_miss [OF assms this] show ?thesis by blast
qed

lemma FindTextureSlot_returns:
  assumes "well_formed s"
  shows "\<exists>r. FindTextureSlot t s = Inr (r, s)"
proof (cases "\<exists>e \<in> set (loaded_entries s). TEXTURE_INFO.tag e = t")
  case True
  from first_index_exists [OF True] obtain i where
    "i < length (loaded_entries s)" "TEXTURE_INFO.tag (loaded_entries s ! i) = t"
    "\<forall>j<i. TEXTURE_INFO.tag (loaded_entries s ! j) \<noteq> t" by blast
  from FindTextureSlot_first [OF assms this] show ?thesis by blast
next
  case False
  then have "\<forall>e \<in> set (loaded_entries s). TEXTURE_INFO.tag e \<noteq> t" by blast
  from FindTextureSlot_miss [OF assms this] show ?thesis by blast
qed

lemma FindTexture_state:
  "FindTextureID t s = Inr (r, s') \<Longrightarrow> s' = s"
  "FindTextureSlot t s = Inr (r, s') \<Longrightarrow> s' = s"
  by (auto simp: FindTextureID_def FindTextureSlot_def split: sum.splits)

lemma six_materials_tags:
  "map OBJECT_MATERIAL.tag (m_objectMaterials six_materials) =
     [''silver'', ''metal'', ''blackmetal'', ''bluewood'', ''cheese'', ''turqoise'']"
  by (simp add: six_materials_def DefineObjectMaterials_tags_append SceneManager_ctor_def)

lemma six_materials_metal:
  "m_objectMaterials six_materials ! Suc 0 =
     \<lparr>ambientColor = (0.2, 0.2, 0.2), ambientStrength = 0.3, diffuseColor = (0.2, 0.2, 0.2),
      specularColor = (0.5, 0.5, 0.5), shininess = 22, tag = ''metal''\<rparr>"
  by (simp add: six_materials_def DefineObjectMaterials_def Let_def SceneManager_ctor_def
        symbolic_glm_def)

lemma DefineObjectMaterials_appends:
  "\<exists>six. length six = 6 \<and>
         m_objectMaterials (DefineObjectMaterials g s) = m_objectMaterials s @ six"
  by (simp add: DefineObjectMaterials_def Let_def)

lemma well_formed_furnished: "well_formed furnished"
  using well_formed_two_pots
  by (simp add: well_formed_def furnished_def DefineObjectMaterials_frame)

section \<open>First match wins\<close>

text \<open>
  Claim C4. On a well-formed object, \<^verbatim>\<open>FindTextureID\<close> and \<^verbatim>\<open>FindTextureSlot\<close> return \<open>- 1\<close>
  when no entry in use carries the tag, and otherwise the handle, respectively the index,
  of the first entry in load order that carries it, whatever later entries share the tag.
\<close>

theorem FindTexture_first_match:
  assumes "well_formed s"
  shows "((\<forall>e \<in> set (loaded_entries s). TEXTURE_INFO.tag e \<noteq> t) \<longrightarrow>
            FindTextureID t s = Inr (- 1, s) \<and> FindTextureSlot t s = Inr (- 1, s)) \<and>
         (i < length (loaded_entries s) \<and> TEXTURE_INFO.tag (loaded_entries s ! i) = t \<and>
          (\<forall>j<i. TEXTURE_INFO.tag (loaded_entries s ! j) \<noteq> t) \<longrightarrow>
            FindTextureID t s = Inr (sint (ID (loaded_entries s ! i)), s) \<and>
            FindTextureSlot t s = Inr (int i, s))"
  using assms FindTextureID_miss FindTextureSlot_miss FindTextureID_first FindTextureSlot_first
  by blast

theorem FindTexture_first_match_witness:
  "well_formed two_pots \<and>
   FindTextureID ''pot'' two_pots = Inr (5, two_pots) \<and>
   FindTextureSlot ''pot'' two_pots = Inr (0, two_pots) \<and>
   FindTextureID ''melon'' two_pots = Inr (- 1, two_pots) \<and>
   FindTextureSlot ''melon'' two_pots = Inr (- 1, two_pots)"
  using FindTexture_first_match [OF well_formed_two_pots, of "''pot''" 0]
        FindTexture_first_match [OF well_formed_two_pots, of "''melon''" 0]
  by (simp add: loaded_entries_two_pots well_formed_two_pots)

section \<open>Inserted tags resolve\<close>

text \<open>
  Claim C3. Take any run of \<^verbatim>\<open>CreateGLTexture\<close> calls on a freshly constructed object in
  which the calls that succeed carry distinct tags. The run returns when at most sixteen
  calls succeed, and in the object it returns \<^verbatim>\<open>FindTextureID\<close> gives, for the tag of every
  successful call, the handle that call stored (as the \<^verbatim>\<open>int\<close> the function returns),
  and \<open>- 1\<close> for every tag that no successful call carried.
\<close>

theorem inserted_tags_resolve:
  assumes "distinct (map (fst \<circ> snd) (successful fs calls))"
  shows "(length (successful fs calls) \<le> 16 \<longrightarrow>
            (\<exists>s :: ('f, 'm) SceneManager.
               CreateGLTexture_run fs calls (SceneManager_ctor p junk) = Inr s)) \<and>
         (\<forall>s :: ('f, 'm) SceneManager.
            CreateGLTexture_run fs calls (SceneManager_ctor p junk) = Inr s \<longrightarrow>
            (\<forall>c \<in> set (successful fs calls).
               FindTextureID (fst (snd c)) s = Inr (sint (snd (snd c)), s)) \<and>
            (\<forall>t. t \<notin> set (map (fst \<circ> snd) (successful fs calls)) \<longrightarrow>
               FindTextureID t s = Inr (- 1, s)))"
proof -
  let ?s0 = "SceneManager_ctor p junk :: ('f, 'm) SceneManager"
  let ?ok = "successful fs calls"
  note ctor = SceneManager_ctor_well_formed [of p junk]
  have returns: "\<exists>s. CreateGLTexture_run fs calls ?s0 = Inr s" if "length ?ok \<le> 16"
  proof -
    have "m_loadedTextures ?s0 + int (length ?ok) \<le> 16"
      using that by (simp add: ctor(3))
    from CreateGLTexture_run_entries [OF ctor(1) this] show ?thesis by blast
  qed
  have lookups:
    "(\<forall>c \<in> set ?ok. FindTextureID (fst (snd c)) s = Inr (sint (snd (snd c)), s)) \<and>
     (\<forall>t. t \<notin> set (map (fst \<circ> snd) ?ok) \<longrightarrow> FindTextureID t s = Inr (- 1, s))"
    if run: "CreateGLTexture_run fs calls ?s0 = Inr s" for s
  proof -
    from CreateGLTexture_run_capacity [OF ctor(1) run]
    have "m_loadedTextures ?s0 + int (length ?ok) \<le> 16" .
    from CreateGLTexture_run_entries [OF ctor(1) this] run
    have wf: "well_formed s" and ent: "loaded_entries s = map entry_of ?ok"
      by (auto simp: ctor(2))
    from entries_resolve [OF wf ent assms] show ?thesis by blast
  qed
  show ?thesis using returns lookups by blast
qed

theorem inserted_tags_resolve_witness:
  "distinct (map (fst \<circ> snd) (successful disk four_calls)) \<and>
   length (successful disk four_calls) \<le> 16 \<and>
   (\<exists>s :: (rat, rat mat_expr) SceneManager.
      CreateGLTexture_run disk four_calls (SceneManager_ctor (Some 0) (\<lambda>i. 0)) = Inr s \<and>
      FindTextureID ''pot'' s = Inr (5, s) \<and> FindTextureID ''leaf'' s = Inr (8, s) \<and>
      FindTextureID ''ghost'' s = Inr (- 1, s) \<and> FindTextureID ''grey'' s = Inr (- 1, s))"
proof -
  have d: "distinct (map (fst \<circ> snd) (successful disk four_calls))"
    by (simp add: successful_four_calls)
  from inserted_tags_resolve [OF d, of "Some 0" "\<lambda>i. 0", where ?'f = rat and ?'m = "rat mat_expr"]
  show ?thesis
    by (auto simp: successful_four_calls)
qed

section \<open>The table is not guarded\<close>

text \<open>
  Claim C6. The table has sixteen entries and \<^verbatim>\<open>CreateGLTexture\<close> does not test the counter
  before it writes. In any object whose sixteen entries are all in use, a call whose image
  loads writes at index 16, outside the array: the model's fault. Such an object is
  reachable: any run from the constructor in which sixteen calls succeed returns one.
\<close>

theorem table_overflow:
  "(length (m_textureIDs (s :: ('f, 'm) SceneManager)) = 16 \<and> m_loadedTextures s = 16 \<and>
    loads fs filename \<longrightarrow>
      CreateGLTexture fs fresh filename t s = Inl (OutOfBounds 16)) \<and>
   (length (successful fs calls) = 16 \<and> loads fs filename \<longrightarrow>
      (\<exists>s' :: ('f, 'm) SceneManager.
         CreateGLTexture_run fs calls (SceneManager_ctor p junk) = Inr s' \<and>
         length (m_textureIDs s') = 16 \<and> m_loadedTextures s' = 16 \<and>
         CreateGLTexture fs fresh filename t s' = Inl (OutOfBounds 16)))"
proof -
  have full: "CreateGLTexture fs fresh filename t s = Inl (OutOfBounds 16)"
    if "length (m_textureIDs s) = 16" "m_loadedTextures s = 16" "loads fs filename"
    for s :: "('f, 'm) SceneManager"
    using CreateGLTexture_overflows [of fs filename s fresh t] that by simp
  have reach: "\<exists>s' :: ('f, 'm) SceneManager.
         CreateGLTexture_run fs calls (SceneManager_ctor p junk) = Inr s' \<and>
         length (m_textureIDs s') = 16 \<and> m_loadedTextures s' = 16 \<and>
         CreateGLTexture fs fresh filename t s' = Inl (OutOfBounds 16)"
    if len: "length (successful fs calls) = 16" and ld: "loads fs filename"
  proof -
    let ?s0 = "SceneManager_ctor p junk :: ('f, 'm) SceneManager"
    note ctor = SceneManager_ctor_well_formed [of p junk]
    have "m_loadedTextures ?s0 + int (length (successful fs calls)) \<le> 16"
      using len by (simp add: ctor(3))
    from CreateGLTexture_run_entries [OF ctor(1) this]
    obtain s' where s': "CreateGLTexture_run fs calls ?s0 = Inr s'" "well_formed s'"
      "loaded_entries s' = loaded_entries ?s0 @ map entry_of (successful fs calls)"
      by blast
    have "length (loaded_entries s') = 16" using s'(3) len by (simp add: ctor(2))
    then have "m_loadedTextures s' = 16" "length (m_textureIDs s') = 16"
      using s'(2) length_loaded_entries [OF s'(2)] by (auto simp: well_formed_def)
    then show ?thesis using s'(1) full ld by blast
  qed
  show ?thesis using full reach by blast
qed

theorem table_overflow_witness:
  "length (m_textureIDs full_table) = 16 \<and> m_loadedTextures full_table = 16 \<and>
   loads disk ''leaf.png'' \<and> length (successful disk sixteen_calls) = 16 \<and>
   CreateGLTexture disk 9 ''leaf.png'' ''leaf'' full_table = Inl (OutOfBounds 16) \<and>
   (\<exists>s' :: (rat, rat mat_expr) SceneManager.
      CreateGLTexture_run disk sixteen_calls (SceneManager_ctor (Some 0) (\<lambda>i. 0)) = Inr s' \<and>
      length (m_textureIDs s') = 16 \<and> m_loadedTextures s' = 16 \<and>
      CreateGLTexture disk 9 ''leaf.png'' ''leaf'' s' = Inl (OutOfBounds 16))"
proof -
  have a: "length (m_textureIDs full_table) = 16" "m_loadedTextures full_table = 16"
    by (simp_all add: full_table_def)
  have b: "loads disk ''leaf.png''" by (simp add: loads_def disk_def)
  have c: "length (successful disk sixteen_calls) = 16"
    by (simp add: successful_sixteen_calls) (simp add: sixteen_calls_def)
  from table_overflow [of full_table disk "''leaf.png''" 9 "''leaf''" sixteen_calls "Some 0" "\<lambda>i. 0"]
  show ?thesis using a b c by blast
qed

section \<open>What a call of CreateGLTexture leaves behind\<close>

text \<open>
  Claim C5, as stated, fails in two states. After a failed load the table is as it was, so a
  tag that an earlier call registered still resolves to its handle: the lookup does not
  return \<open>- 1\<close>. And with sixteen entries in use a load that succeeds does not append to the
  table: the write falls outside it.
\<close>

theorem failed_load_keeps_registered_tag:
  "CreateGLTexture disk 9 ''missing.jpg'' ''pot'' two_pots =
     Inr (False, two_pots\<lparr>gl_calls :=
            [stbi_set_flip_vertically_on_load True, stbi_load ''missing.jpg'']\<rparr>) \<and>
   FindTextureID ''pot'' (two_pots\<lparr>gl_calls :=
            [stbi_set_flip_vertically_on_load True, stbi_load ''missing.jpg'']\<rparr>) =
     Inr (5, two_pots\<lparr>gl_calls :=
            [stbi_set_flip_vertically_on_load True, stbi_load ''missing.jpg'']\<rparr>) \<and>
   loads disk ''leaf.png'' \<and>
   CreateGLTexture disk 9 ''leaf.png'' ''leaf'' full_table = Inl (OutOfBounds 16)"
proof -
  let ?s = "two_pots\<lparr>gl_calls :=
            [stbi_set_flip_vertically_on_load True, stbi_load ''missing.jpg'']\<rparr>"
  have same: "loaded_entries ?s = loaded_entries two_pots" "well_formed ?s"
    using well_formed_two_pots by (simp_all add: loaded_entries_def well_formed_def)
  have "FindTextureID ''pot'' ?s = Inr (5, ?s)"
    using FindTextureID_first [OF same(2), of 0 "''pot''"]
    by (simp add: same(1) loaded_entries_two_pots)
  moreover have ld: "loads disk ''leaf.png''" by (simp add: loads_def disk_def)
  moreover have "CreateGLTexture disk 9 ''leaf.png'' ''leaf'' full_table = Inl (OutOfBounds 16)"
    using CreateGLTexture_overflows [OF ld, of full_table 9 "''leaf''"]
    by (simp add: full_table_def)
  ultimately show ?thesis using after_failed_load by simp
qed

text \<open>
  Claim C5, amended. \<open>loads\<close> says that the file is read and has three or four channels.
  When it does not hold, the call returns false, the table and the counter are unchanged and
  every lookup answers as before the call, so \<open>- 1\<close> for the call's tag when no entry in
  use carried it. When it holds and fewer than sixteen entries are in use, the call returns
  true and the entries in use are those before, followed by the tag with the new handle.
  Whenever the call returns, it returns true exactly when the load succeeded.
\<close>

theorem CreateGLTexture_outcome:
  "(\<not> loads fs filename \<longrightarrow>
      (\<exists>s'. CreateGLTexture fs fresh filename t s = Inr (False, s') \<and>
            m_textureIDs s' = m_textureIDs s \<and> m_loadedTextures s' = m_loadedTextures s \<and>
            (\<forall>t'. map_sum id fst (FindTextureID t' s') = map_sum id fst (FindTextureID t' s)) \<and>
            (well_formed s \<and> (\<forall>e \<in> set (loaded_entries s). TEXTURE_INFO.tag e \<noteq> t) \<longrightarrow>
               FindTextureID t s' = Inr (- 1, s')))) \<and>
   (loads fs filename \<and> well_formed s \<and> m_loadedTextures s < 16 \<longrightarrow>
      (\<exists>s'. CreateGLTexture fs fresh filename t s = Inr (True, s') \<and>
            loaded_entries s' = loaded_entries s @ [\<lparr>TEXTURE_INFO.tag = t, ID = fresh\<rparr>] \<and>
            m_loadedTextures s' = m_loadedTextures s + 1)) \<and>
   (\<forall>b s'. CreateGLTexture fs fresh filename t s = Inr (b, s') \<longrightarrow> b = loads fs filename)"
proof (intro conjI impI allI)
  assume nl: "\<not> loads fs filename"
  from CreateGLTexture_fails [OF nl, of fresh t s]
  obtain s' where s': "CreateGLTexture fs fresh filename t s = Inr (False, s')"
    "m_textureIDs s' = m_textureIDs s" "m_loadedTextures s' = m_loadedTextures s"
    by blast
  note same = loaded_entries_same [OF s'(2,3)]
  have "FindTextureID t s' = Inr (- 1, s')"
    if "well_formed s" "\<forall>e \<in> set (loaded_entries s). TEXTURE_INFO.tag e \<noteq> t"
    using that same by (intro FindTextureID_miss) simp_all
  then show "\<exists>s'. CreateGLTexture fs fresh filename t s = Inr (False, s') \<and>
            m_textureIDs s' = m_textureIDs s \<and> m_loadedTextures s' = m_loadedTextures s \<and>
            (\<forall>t'. map_sum id fst (FindTextureID t' s') = map_sum id fst (FindTextureID t' s)) \<and>
            (well_formed s \<and> (\<forall>e \<in> set (loaded_entries s). TEXTURE_INFO.tag e \<noteq> t) \<longrightarrow>
               FindTextureID t s' = Inr (- 1, s'))"
    using s' FindTextureID_same_table [OF s'(2,3)] by blast
next
  assume a: "loads fs filename \<and> well_formed s \<and> m_loadedTextures s < 16"
  then have "0 \<le> m_loadedTextures s" "m_loadedTextures s < int (length (m_textureIDs s))"
    by (auto simp: well_formed_def)
  from CreateGLTexture_succeeds [OF _ this, of fs filename fresh t] a
  obtain s' where s': "CreateGLTexture fs fresh filename t s = Inr (True, s')"
    "m_textureIDs s' = (m_textureIDs s)[nat (m_loadedTextures s) :=
                                   \<lparr>TEXTURE_INFO.tag = t, ID = fresh\<rparr>]"
    "m_loadedTextures s' = m_loadedTextures s + 1"
    by blast
  from loaded_entries_append(2) [OF _ _ s'(2,3)] a
  have "loaded_entries s' = loaded_entries s @ [\<lparr>TEXTURE_INFO.tag = t, ID = fresh\<rparr>]"
    by blast
  then show "\<exists>s'. CreateGLTexture fs fresh filename t s = Inr (True, s') \<and>
            loaded_entries s' = loaded_entries s @ [\<lparr>TEXTURE_INFO.tag = t, ID = fresh\<rparr>] \<and>
            m_loadedTextures s' = m_loadedTextures s + 1"
    using s' by blast
next
  fix b s' assume r: "CreateGLTexture fs fresh filename t s = Inr (b, s')"
  show "b = loads fs filename"
  proof (cases "loads fs filename")
    case True
    then show ?thesis using r
      by (auto simp: CreateGLTexture_def loads_def Let_def register_texture_def
               split: option.splits if_splits)
  next
    case False
    from CreateGLTexture_fails [OF False, of fresh t s] r show ?thesis using False by auto
  qed
qed

theorem CreateGLTexture_outcome_witness:
  "\<not> loads disk ''grey.png'' \<and> well_formed two_pots \<and>
   (\<exists>s'. CreateGLTexture disk 9 ''grey.png'' ''melon'' two_pots = Inr (False, s') \<and>
         m_textureIDs s' = m_textureIDs two_pots \<and>
         m_loadedTextures s' = m_loadedTextures two_pots \<and>
         FindTextureID ''melon'' s' = Inr (- 1, s')) \<and>
   loads disk ''leaf.png'' \<and> m_loadedTextures two_pots < 16 \<and>
   (\<exists>s'. CreateGLTexture disk 9 ''leaf.png'' ''leaf'' two_pots = Inr (True, s') \<and>
         loaded_entries s' = loaded_entries two_pots @ [\<lparr>TEXTURE_INFO.tag = ''leaf'', ID = 9\<rparr>] \<and>
         m_loadedTextures s' = m_loadedTextures two_pots + 1)"
proof -
  have a: "\<not> loads disk ''grey.png''" "loads disk ''leaf.png''"
    by (simp_all add: loads_def disk_def)
  have b: "\<forall>e \<in> set (loaded_entries two_pots). TEXTURE_INFO.tag e \<noteq> ''melon''"
    by (simp add: loaded_entries_two_pots)
  have c: "m_loadedTextures two_pots < 16" by (simp add: two_pots_def)
  from CreateGLTexture_outcome [of disk "''grey.png''" 9 "''melon''" two_pots]
       CreateGLTexture_outcome [of disk "''leaf.png''" 9 "''leaf''" two_pots]
  show ?thesis using a b c well_formed_two_pots by blast
qed

section \<open>FindMaterial as the code has it\<close>

text \<open>
  Claim C2. When the material list is not empty \<^verbatim>\<open>FindMaterial\<close> returns true, whether or not
  a material carries the tag. When none does, the record passed in comes back as it was, so
  a record that comes back changed means a match; on a match the first matching material's
  two strengths and three colours are copied into it, its tag is left alone.
\<close>

theorem FindMaterial_returns_true_when_nonempty:
  "(m_objectMaterials s \<noteq> [] \<longrightarrow> fst (FindMaterial t material s) = True) \<and>
   (m_objectMaterials s \<noteq> [] \<and>
    (\<forall>m \<in> set (m_objectMaterials s). OBJECT_MATERIAL.tag m \<noteq> t) \<longrightarrow>
      FindMaterial t material s = (True, material, s)) \<and>
   (fst (snd (FindMaterial t material s)) \<noteq> material \<longrightarrow>
      (\<exists>m \<in> set (m_objectMaterials s). OBJECT_MATERIAL.tag m = t)) \<and>
   (i < length (m_objectMaterials s) \<and> OBJECT_MATERIAL.tag (m_objectMaterials s ! i) = t \<and>
    (\<forall>j<i. OBJECT_MATERIAL.tag (m_objectMaterials s ! j) \<noteq> t) \<longrightarrow>
      FindMaterial t material s =
        (True,
         material\<lparr>ambientColor := ambientColor (m_objectMaterials s ! i),
                  ambientStrength := ambientStrength (m_objectMaterials s ! i),
                  diffuseColor := diffuseColor (m_objectMaterials s ! i),
                  specularColor := specularColor (m_objectMaterials s ! i),
                  shininess := shininess (m_objectMaterials s ! i)\<rparr>,
         s))"
proof -
  have unchanged: "\<exists>m \<in> set (m_objectMaterials s). OBJECT_MATERIAL.tag m = t"
    if "fst (snd (FindMaterial t material s)) \<noteq> material"
  proof (rule ccontr)
    assume "\<not> ?thesis"
    then have none: "\<forall>m \<in> set (m_objectMaterials s). OBJECT_MATERIAL.tag m \<noteq> t" by blast
    have "fst (snd (FindMaterial t material s)) = material"
    proof (cases "m_objectMaterials s = []")
      case True
      then show ?thesis by (simp add: FindMaterial_empty)
    next
      case False
      from FindMaterial_miss [OF False none] show ?thesis by simp
    qed
    then show False using that by simp
  qed
  show ?thesis
    using FindMaterial_nonempty_true FindMaterial_miss FindMaterial_first unchanged by blast
qed

theorem FindMaterial_returns_true_when_nonempty_witness:
  "m_objectMaterials six_materials \<noteq> [] \<and>
   FindMaterial ''gold'' blank six_materials = (True, blank, six_materials) \<and>
   FindMaterial ''metal'' blank six_materials =
     (True,
      \<lparr>ambientColor = (0.2, 0.2, 0.2), ambientStrength = 0.3, diffuseColor = (0.2, 0.2, 0.2),
       specularColor = (0.5, 0.5, 0.5), shininess = 22, tag = ''''\<rparr>,
      six_materials)"
proof -
  have ne: "m_objectMaterials six_materials \<noteq> []"
    using six_materials_tags by auto
  have miss: "\<forall>m \<in> set (m_objectMaterials six_materials). OBJECT_MATERIAL.tag m \<noteq> ''gold''"
  proof
    fix m assume "m \<in> set (m_objectMaterials six_materials)"
    then have "OBJECT_MATERIAL.tag m \<in> set (map OBJECT_MATERIAL.tag (m_objectMaterials six_materials))"
      by simp
    then show "OBJECT_MATERIAL.tag m \<noteq> ''gold''"
      unfolding six_materials_tags by auto
  qed
  have len: "length (m_objectMaterials six_materials) = 6"
    using arg_cong [OF six_materials_tags, of length] by simp
  have t0: "OBJECT_MATERIAL.tag (m_objectMaterials six_materials ! 0) = ''silver''"
    using arg_cong [OF six_materials_tags, of "\<lambda>l. l ! 0"] len by simp
  have hit: "Suc 0 < length (m_objectMaterials six_materials) \<and>
        OBJECT_MATERIAL.tag (m_objectMaterials six_materials ! Suc 0) = ''metal'' \<and>
        (\<forall>j<Suc 0. OBJECT_MATERIAL.tag (m_objectMaterials six_materials ! j) \<noteq> ''metal'')"
    using len t0 by (simp add: six_materials_metal)
  from FindMaterial_returns_true_when_nonempty [of six_materials "''gold''" blank "Suc 0"]
       FindMaterial_returns_true_when_nonempty [of six_materials "''metal''" blank "Suc 0"]
  show ?thesis using ne miss hit by (simp add: six_materials_metal blank_def)
qed

section \<open>FindMaterial against its contract\<close>

text \<open>
  Claim C1 asks for false when no material carries the tag. The code returns true there:
  after \<^verbatim>\<open>DefineObjectMaterials\<close> no material is tagged \<open>gold\<close> (the gold material's tag is
  \<open>metal\<close>), \<^verbatim>\<open>FindMaterial\<close> returns true with the record untouched, and
  \<^verbatim>\<open>SetShaderMaterial\<close>, which tests that result, sends the record it never filled to the
  shader.
\<close>

theorem FindMaterial_absent_tag_reported_found:
  "''gold'' \<notin> set (map OBJECT_MATERIAL.tag (m_objectMaterials six_materials)) \<and>
   FindMaterial ''gold'' blank six_materials = (True, blank, six_materials) \<and>
   SetShaderMaterial blank ''gold'' six_materials =
     Inr (six_materials\<lparr>shader_calls := shader_calls six_materials @
            [setVec3Value ''material.ambientColor'' (0, 0, 0),
             setFloatValue ''material.ambientStrength'' 0,
             setVec3Value ''material.diffuseColor'' (0, 0, 0),
             setVec3Value ''material.specularColor'' (0, 0, 0),
             setFloatValue ''material.shininess'' 0]\<rparr>)"
proof -
  have absent: "''gold'' \<notin> set (map OBJECT_MATERIAL.tag (m_objectMaterials six_materials))"
    unfolding six_materials_tags by simp
  then have miss: "\<forall>m \<in> set (m_objectMaterials six_materials). OBJECT_MATERIAL.tag m \<noteq> ''gold''"
    by (metis image_eqI set_map)
  have ne: "m_objectMaterials six_materials \<noteq> []"
    using six_materials_tags by auto
  have found: "FindMaterial ''gold'' blank six_materials = (True, blank, six_materials)"
    by (rule FindMaterial_miss [OF ne miss])
  have shader: "m_pShaderManager six_materials = Some 0"
    by (simp add: six_materials_def DefineObjectMaterials_frame SceneManager_ctor_def)
  have "SetShaderMaterial blank ''gold'' six_materials =
     Inr (six_materials\<lparr>shader_calls := shader_calls six_materials @
            [setVec3Value ''material.ambientColor'' (0, 0, 0),
             setFloatValue ''material.ambientStrength'' 0,
             setVec3Value ''material.diffuseColor'' (0, 0, 0),
             setVec3Value ''material.specularColor'' (0, 0, 0),
             setFloatValue ''material.shininess'' 0]\<rparr>)"
    using ne by (simp add: SetShaderMaterial_def found shader) (simp add: blank_def)
  then show ?thesis using absent found by blast
qed

section \<open>The six materials\<close>

text \<open>
  Claim C8. On an empty material list \<^verbatim>\<open>DefineObjectMaterials\<close> leaves six records whose
  tags are, in order, silver, metal, blackmetal, bluewood, cheese and turqoise, all
  different; on any list it appends six records to what was there.
\<close>

theorem DefineObjectMaterials_six_tags:
  "map OBJECT_MATERIAL.tag
     (m_objectMaterials (DefineObjectMaterials g (s\<lparr>m_objectMaterials := []\<rparr>))) =
     [''silver'', ''metal'', ''blackmetal'', ''bluewood'', ''cheese'', ''turqoise''] \<and>
   length (m_objectMaterials (DefineObjectMaterials g (s\<lparr>m_objectMaterials := []\<rparr>))) = 6 \<and>
   distinct (map OBJECT_MATERIAL.tag
     (m_objectMaterials (DefineObjectMaterials g (s\<lparr>m_objectMaterials := []\<rparr>)))) \<and>
   (\<exists>six. length six = 6 \<and>
      m_objectMaterials (DefineObjectMaterials g s) = m_objectMaterials s @ six)"
proof -
  let ?ms = "m_objectMaterials (DefineObjectMaterials g (s\<lparr>m_objectMaterials := []\<rparr>))"
  have tags: "map OBJECT_MATERIAL.tag ?ms =
     [''silver'', ''metal'', ''blackmetal'', ''bluewood'', ''cheese'', ''turqoise'']"
    by (simp add: DefineObjectMaterials_tags_append)
  have "length (map OBJECT_MATERIAL.tag ?ms) = 6" unfolding tags by simp
  then have len: "length ?ms = 6" by simp
  have "distinct (map OBJECT_MATERIAL.tag ?ms)" unfolding tags by simp
  then show ?thesis using tags len DefineObjectMaterials_appends [of g s] by blast
qed

section \<open>Lookups do not write\<close>

text \<open>
  Claim C9. Whenever \<^verbatim>\<open>FindTextureID\<close> or \<^verbatim>\<open>FindTextureSlot\<close> returns, the object is as
  before the call, and on a well-formed object both return; \<^verbatim>\<open>FindMaterial\<close> always
  returns and leaves the object as it was. The object includes the table, the counter and
  the material list.
\<close>

theorem lookups_leave_state:
  "(\<forall>r s'. FindTextureID t s = Inr (r, s') \<longrightarrow> s' = s) \<and>
   (\<forall>r s'. FindTextureSlot t s = Inr (r, s') \<longrightarrow> s' = s) \<and>
   snd (snd (FindMaterial t material s)) = s \<and>
   (well_formed s \<longrightarrow>
      (\<exists>r. FindTextureID t s = Inr (r, s)) \<and> (\<exists>r. FindTextureSlot t s = Inr (r, s)))"
  using FindTexture_state FindMaterial_state FindTextureID_returns FindTextureSlot_returns
  by blast

theorem lookups_leave_state_witness:
  "well_formed furnished \<and>
   (\<exists>r. FindTextureID ''pot'' furnished = Inr (r, furnished)) \<and>
   (\<exists>r. FindTextureSlot ''pot'' furnished = Inr (r, furnished)) \<and>
   snd (snd (FindMaterial ''pot'' blank furnished)) = furnished"
  using lookups_leave_state [of "''pot''" furnished blank] well_formed_furnished
  by blast

section \<open>No shader manager\<close>

text \<open>
  Claim C10. With a null shader-manager pointer \<^verbatim>\<open>SetTransformations\<close>, \<^verbatim>\<open>SetShaderColor\<close>,
  \<^verbatim>\<open>SetShaderTexture\<close> and \<^verbatim>\<open>SetTextureUVScale\<close> return the object unchanged, its log of
  shader calls included, for all arguments; \<^verbatim>\<open>SetShaderTexture\<close> does not reach the lookup
  and so cannot fault.
\<close>

theorem null_shader_manager_is_noop:
  assumes "m_pShaderManager s = None"
  shows "SetTransformations g scaleXYZ XrotationDegrees YrotationDegrees ZrotationDegrees
           positionXYZ s = s \<and>
         SetShaderColor redColorValue greenColorValue blueColorValue alphaValue s = s \<and>
         SetShaderTexture textureTag s = Inr s \<and>
         SetTextureUVScale u v s = s"
  using assms
  by (simp add: SetTransformations_def SetShaderColor_def SetShaderTexture_def
        SetTextureUVScale_def Let_def)

theorem null_shader_manager_is_noop_witness:
  "m_pShaderManager null_shader = None \<and>
   SetTransformations symbolic_glm (2.5, 2.5, 10) 90 0 0 (4, 3, 0) null_shader = null_shader \<and>
   SetShaderColor 1 1 1 1 null_shader = null_shader \<and>
   SetShaderTexture ''pot'' null_shader = Inr null_shader \<and>
   SetTextureUVScale 1 1 null_shader = null_shader"
proof -
  have n: "m_pShaderManager null_shader = None" by (simp add: null_shader_def)
  from null_shader_manager_is_noop [OF n, of symbolic_glm "(2.5, 2.5, 10)" 90 0 0 "(4, 3, 0)"
         1 1 1 1 "''pot''" 1 1]
  show ?thesis using n by simp
qed

section \<open>The model matrix\<close>

text \<open>
  Claim C7. With a shader manager present, \<^verbatim>\<open>SetTransformations\<close> makes one shader call,
  \<^verbatim>\<open>setMat4Value\<close> on \<open>model\<close>, with the product of the translation, the rotations about
  X, Y and Z and the scale, multiplied left to right in that order, for every
  interpretation of the glm operations; nothing else in the object changes.
\<close>

theorem SetTransformations_model_matrix:
  assumes "m_pShaderManager s \<noteq> None"
  shows "SetTransformations g scaleXYZ XrotationDegrees YrotationDegrees ZrotationDegrees
           positionXYZ s =
         s\<lparr>shader_calls := shader_calls s @
            [setMat4Value ''model''
               (mat4_mul g
                 (mat4_mul g
                   (mat4_mul g
                     (mat4_mul g
                       (glm_translate g positionXYZ)
                       (glm_rotate g (glm_radians g XrotationDegrees)
                          (float_lit g 1, float_lit g 0, float_lit g 0)))
                     (glm_rotate g (glm_radians g YrotationDegrees)
                        (float_lit g 0, float_lit g 1, float_lit g 0)))
                   (glm_rotate g (glm_radians g ZrotationDegrees)
                      (float_lit g 0, float_lit g 0, float_lit g 1)))
                 (glm_scale g scaleXYZ))]\<rparr>"
  using assms by (simp add: SetTransformations_def Let_def g_ModelName_def)

theorem SetTransformations_model_matrix_witness:
  "m_pShaderManager two_pots \<noteq> None \<and>
   shader_calls (SetTransformations symbolic_glm (2.5, 2.5, 10) 90 0 0 (4, 3, 0) two_pots) =
     [setMat4Value ''model''
        (Mul (Mul (Mul (Mul (Translate (4, 3, 0)) (Rotate (355 / 226) (1, 0, 0)))
                       (Rotate 0 (0, 1, 0)))
                  (Rotate 0 (0, 0, 1)))
             (Scale (2.5, 2.5, 10)))]"
proof -
  have n: "m_pShaderManager two_pots \<noteq> None" by (simp add: two_pots_def)
  from SetTransformations_model_matrix [OF n, of symbolic_glm "(2.5, 2.5, 10)" 90 0 0 "(4, 3, 0)"]
  show ?thesis using n by (simp add: symbolic_glm_def two_pots_def)
qed

end
